theory Spec2Isabelle
  imports Main "HOL-Library.Word"
begin

section \<open>Data model of uesm.h\<close>

text \<open>
  The header selects one of two bodies for every function with \<^verbatim>\<open>#ifdef _WIN32\<close>.
  The build-time choice is a parameter of every function of the model.
\<close>

datatype platform = Windows | Posix

text \<open>
  \<^verbatim>\<open>void*\<close> is modelled by its integer value. The POSIX bodies move a file descriptor
  through \<^verbatim>\<open>reinterpret_cast<void*>(shm_fd)\<close> and back, which is the identity on that
  value. \<^verbatim>\<open>const char*\<close> is an optional string, \<open>None\<close> being the null pointer, so
  that the empty string \<open>Some []\<close> is a different, non-null argument. \<^verbatim>\<open>size_t\<close> is a
  natural number (no arithmetic is done on it), \<^verbatim>\<open>unsigned int\<close> a 32-bit word.
\<close>

type_synonym ptr = int
type_synonym cstring = "string option"
type_synonym size_t = nat
type_synonym unsigned_int = "32 word"

definition nullptr :: ptr where
  "nullptr = 0"

text \<open>\<^verbatim>\<open>#define INFINITE ((unsigned int)-1)\<close>\<close>

definition INFINITE :: unsigned_int where
  "INFINITE = - 1"

text \<open>
  Constants of the system headers the code compares results with:
  \<^verbatim>\<open>SEM_FAILED\<close> (semaphore.h, glibc), \<^verbatim>\<open>MAP_FAILED\<close> (sys/mman.h),
  \<^verbatim>\<open>WAIT_OBJECT_0\<close>, \<^verbatim>\<open>WAIT_TIMEOUT\<close> and \<^verbatim>\<open>WAIT_FAILED\<close> (windows.h).
\<close>

definition SEM_FAILED :: ptr where
  "SEM_FAILED = 0"

definition MAP_FAILED :: ptr where
  "MAP_FAILED = - 1"

definition WAIT_OBJECT_0 :: unsigned_int where
  "WAIT_OBJECT_0 = 0"

definition WAIT_TIMEOUT :: unsigned_int where
  "WAIT_TIMEOUT = 258"

definition WAIT_FAILED :: unsigned_int where
  "WAIT_FAILED = - 1"

text \<open>
  \<^verbatim>\<open>struct timespec\<close>. Its fields have the types \<^verbatim>\<open>time_t\<close> and \<^verbatim>\<open>long\<close>, signed
  and of fixed width. The model takes the platform on which the POSIX bodies are
  well-formed, where \<^verbatim>\<open>int\<close> holds a pointer: \<^verbatim>\<open>int\<close>, \<^verbatim>\<open>long\<close> and \<^verbatim>\<open>time_t\<close>
  are 32 bits wide. A field is a 32-bit word, read as a signed value by \<open>sint\<close>.
\<close>

type_synonym time_t = "32 word"
type_synonym long = "32 word"


record timespec =
  tv_sec :: time_t
  tv_nsec :: long

subsection \<open>Calls into the operating system\<close>

text \<open>
  Every function of the header is a short sequence of system calls. The model returns,
  next to the function's result, the calls it issued, in order, with the arguments the
  claims are about. Arguments that are the same constant at every call site are left out
  (\<^verbatim>\<open>O_CREAT\<close>, mode \<^verbatim>\<open>0666\<close>, \<^verbatim>\<open>PROT_READ | PROT_WRITE\<close>, \<^verbatim>\<open>MAP_SHARED\<close>,
  \<^verbatim>\<open>CLOCK_REALTIME\<close>, \<^verbatim>\<open>INVALID_HANDLE_VALUE\<close>, \<^verbatim>\<open>PAGE_READWRITE\<close>,
  \<^verbatim>\<open>FILE_MAP_ALL_ACCESS\<close>), except the manual-reset flag of \<^verbatim>\<open>CreateEventA\<close>.
\<close>

datatype os_call =
    CreateEventA bool bool string
  | SetEvent ptr
  | WaitForSingleObject ptr unsigned_int
  | CloseHandle ptr
  | CreateFileMappingA size_t string
  | MapViewOfFile ptr size_t
  | UnmapViewOfFile ptr
  | sem_open string nat
  | sem_post ptr
  | sem_wait ptr
  | clock_gettime
  | sem_timedwait ptr timespec
  | sem_close ptr
  | sem_unlink string
  | shm_open string
  | ftruncate int size_t
  | close int
  | shm_unlink string
  | mmap size_t int
  | munmap ptr size_t
  | perror string

text \<open>
  What the operating system answers to the calls whose result the code reads. A call
  that may block for ever (\<^verbatim>\<open>sem_wait\<close>, \<^verbatim>\<open>WaitForSingleObject\<close>) answers \<open>None\<close>
  when it does not return; the answer of \<^verbatim>\<open>WaitForSingleObject\<close> may depend on the
  timeout passed. \<open>r_errno\<close> is the value of \<^verbatim>\<open>errno\<close> after a failed wait; the code
  never reads it. The results of \<^verbatim>\<open>CloseHandle\<close>, \<^verbatim>\<open>sem_close\<close>,
  \<^verbatim>\<open>sem_unlink\<close>, \<^verbatim>\<open>close\<close>, \<^verbatim>\<open>shm_unlink\<close>, \<^verbatim>\<open>munmap\<close> and
  \<^verbatim>\<open>UnmapViewOfFile\<close> are discarded by the code and have no field.
\<close>

record os_reply =
  r_CreateEventA :: ptr
  r_sem_open :: ptr
  r_SetEvent :: int
  r_sem_post :: int
  r_WaitForSingleObject :: "unsigned_int \<Rightarrow> unsigned_int option"
  r_sem_wait :: "int option"
  r_clock_gettime :: timespec
  r_sem_timedwait :: int
  r_errno :: int
  r_CreateFileMappingA :: ptr
  r_shm_open :: int
  r_ftruncate :: int
  r_MapViewOfFile :: ptr
  r_mmap :: ptr

section \<open>Universal event functions\<close>

definition create_event :: "platform \<Rightarrow> os_reply \<Rightarrow> cstring \<Rightarrow> bool \<Rightarrow> ptr \<times> os_call list" where
  "create_event plat os name initial_state =
     (case name of
        None \<Rightarrow> (nullptr, [])
      | Some n \<Rightarrow>
          (case plat of
             Windows \<Rightarrow> (r_CreateEventA os, [CreateEventA False initial_state n])
           | Posix \<Rightarrow>
               (let sem = r_sem_open os in
                if sem = SEM_FAILED
                then (nullptr, [sem_open n (if initial_state then 1 else 0), perror ''sem_open''])
                else (sem, [sem_open n (if initial_state then 1 else 0)]))))"

definition set_event :: "platform \<Rightarrow> os_reply \<Rightarrow> ptr \<Rightarrow> bool \<times> os_call list" where
  "set_event plat os event =
     (if event = nullptr then (False, [])
      else
        (case plat of
           Windows \<Rightarrow> (r_SetEvent os \<noteq> 0, [SetEvent event])
         | Posix \<Rightarrow> (r_sem_post os = 0, [sem_post event])))"

text \<open>
  The deadline of the timed wait. \<^verbatim>\<open>timeout_ms / 1000\<close> and
  \<^verbatim>\<open>(timeout_ms % 1000) * 1000000\<close> are computed in \<^verbatim>\<open>unsigned int\<close>. In
  \<^verbatim>\<open>ts.tv_sec += ...\<close> and \<^verbatim>\<open>ts.tv_nsec += ...\<close> the signed field of 32 bits meets an
  \<^verbatim>\<open>unsigned int\<close>, so the sum is formed in 32 unsigned bits and stored back: every
  addition is an addition of 32-bit words and wraps. The test
  \<^verbatim>\<open>ts.tv_nsec >= 1000000000\<close> compares signed values.
\<close>

definition nsec_sum :: "timespec \<Rightarrow> unsigned_int \<Rightarrow> long" where
  "nsec_sum ts timeout_ms = tv_nsec ts + (timeout_ms mod 1000) * 1000000"

definition deadline :: "timespec \<Rightarrow> unsigned_int \<Rightarrow> timespec" where
  "deadline ts timeout_ms =
     (let sec = tv_sec ts + timeout_ms div 1000;
          nsec = nsec_sum ts timeout_ms
      in if 1000000000 \<le> sint nsec
         then \<lparr>tv_sec = sec + 1, tv_nsec = nsec - 1000000000\<rparr>
         else \<lparr>tv_sec = sec, tv_nsec = nsec\<rparr>)"

definition wait_for_event ::
  "platform \<Rightarrow> os_reply \<Rightarrow> ptr \<Rightarrow> unsigned_int \<Rightarrow> bool option \<times> os_call list" where
  "wait_for_event plat os event timeout_ms =
     (if event = nullptr then (Some False, [])
      else
        (case plat of
           Windows \<Rightarrow>
             (map_option (\<lambda>result. result = WAIT_OBJECT_0) (r_WaitForSingleObject os timeout_ms),
              [WaitForSingleObject event timeout_ms])
         | Posix \<Rightarrow>
             (if timeout_ms = INFINITE
              then (map_option (\<lambda>rc. rc = 0) (r_sem_wait os), [sem_wait event])
              else (Some (r_sem_timedwait os = 0),
                    [clock_gettime,
                     sem_timedwait event (deadline (r_clock_gettime os) timeout_ms)]))))"

definition close_event :: "platform \<Rightarrow> ptr \<Rightarrow> cstring \<Rightarrow> os_call list" where
  "close_event plat event name =
     (if event = nullptr then []
      else
        (case plat of
           Windows \<Rightarrow> [CloseHandle event]
         | Posix \<Rightarrow>
             (case name of
                None \<Rightarrow> [sem_close event]
              | Some n \<Rightarrow> [sem_close event, sem_unlink n])))"

section \<open>Universal shared memory functions\<close>

definition create_shared_memory ::
  "platform \<Rightarrow> os_reply \<Rightarrow> cstring \<Rightarrow> size_t \<Rightarrow> ptr \<times> os_call list" where
  "create_shared_memory plat os name sz =
     (case name of
        None \<Rightarrow> (nullptr, [])
      | Some n \<Rightarrow>
          (if sz = 0 then (nullptr, [])
           else
             (case plat of
                Windows \<Rightarrow> (r_CreateFileMappingA os, [CreateFileMappingA sz n])
              | Posix \<Rightarrow>
                  (let shm_fd = r_shm_open os in
                   if shm_fd = - 1
                   then (nullptr, [shm_open n, perror ''shm_open''])
                   else if r_ftruncate os = - 1
                   then (nullptr,
                         [shm_open n, ftruncate shm_fd sz, perror ''ftruncate'',
                          close shm_fd, shm_unlink n])
                   else (shm_fd, [shm_open n, ftruncate shm_fd sz])))))"

definition map_shared_memory ::
  "platform \<Rightarrow> os_reply \<Rightarrow> ptr \<Rightarrow> size_t \<Rightarrow> ptr \<times> os_call list" where
  "map_shared_memory plat os shm sz =
     (if shm = nullptr then (nullptr, [])
      else if sz = 0 then (nullptr, [])
      else
        (case plat of
           Windows \<Rightarrow>
             (let p = r_MapViewOfFile os in
              if p = nullptr
              then (p, [MapViewOfFile shm sz, CloseHandle shm])
              else (p, [MapViewOfFile shm sz]))
         | Posix \<Rightarrow>
             (let shm_fd = shm; p = r_mmap os in
              if p = MAP_FAILED
              then (nullptr, [mmap sz shm_fd, perror ''mmap'', close shm_fd])
              else (p, [mmap sz shm_fd]))))"

definition close_shared_memory ::
  "platform \<Rightarrow> ptr \<Rightarrow> cstring \<Rightarrow> ptr \<Rightarrow> size_t \<Rightarrow> os_call list" where
  "close_shared_memory plat shm name mapped sz =
     (if shm = nullptr then []
      else
        (case plat of
           Windows \<Rightarrow>
             (if mapped \<noteq> nullptr then [UnmapViewOfFile mapped] else []) @ [CloseHandle shm]
         | Posix \<Rightarrow>
             (if mapped \<noteq> nullptr then [munmap mapped sz] else []) @ [close shm] @
             (case name of None \<Rightarrow> [] | Some n \<Rightarrow> [shm_unlink n])))"

section \<open>Vocabulary of the claims\<close>

subsection \<open>A run in which every call succeeds\<close>

definition os_ok :: os_reply where
  "os_ok =
     \<lparr>r_CreateEventA = 64, r_sem_open = 4096, r_SetEvent = 1, r_sem_post = 0,
      r_WaitForSingleObject = (\<lambda>_. Some WAIT_OBJECT_0), r_sem_wait = Some 0,
      r_clock_gettime = \<lparr>tv_sec = 1700000000, tv_nsec = 999999999\<rparr>,
      r_sem_timedwait = 0, r_errno = 0, r_CreateFileMappingA = 68, r_shm_open = 3,
      r_ftruncate = 0, r_MapViewOfFile = 8192, r_mmap = 8192\<rparr>"

subsection \<open>The calls that release a handle\<close>

text \<open>The call with which each build gives back a backing handle.\<close>

definition close_call :: "platform \<Rightarrow> ptr \<Rightarrow> os_call" where
  "close_call plat h = (case plat of Windows \<Rightarrow> CloseHandle h | Posix \<Rightarrow> close h)"

text \<open>
  The test each build of \<open>map_shared_memory\<close> applies to the result of the mapping call:
  \<^verbatim>\<open>ptr == nullptr\<close> after \<^verbatim>\<open>MapViewOfFile\<close>, \<^verbatim>\<open>ptr == MAP_FAILED\<close> after
  \<^verbatim>\<open>mmap\<close>.
\<close>

definition map_failed :: "platform \<Rightarrow> os_reply \<Rightarrow> bool" where
  "map_failed plat os =
     (case plat of Windows \<Rightarrow> r_MapViewOfFile os = nullptr | Posix \<Rightarrow> r_mmap os = MAP_FAILED)"

subsection \<open>The three outcomes of a wait\<close>

text \<open>
  The outcome of the wait at the level of the operating system, as the documentation of
  the two primitives gives it: \<^verbatim>\<open>WaitForSingleObject\<close> returns \<^verbatim>\<open>WAIT_OBJECT_0\<close>,
  \<^verbatim>\<open>WAIT_TIMEOUT\<close> or \<^verbatim>\<open>WAIT_FAILED\<close>; \<^verbatim>\<open>sem_wait\<close> and \<^verbatim>\<open>sem_timedwait\<close>
  return 0, or - 1 with \<^verbatim>\<open>errno\<close> set, to \<^verbatim>\<open>ETIMEDOUT\<close> when the deadline passed.
\<close>

datatype wait_outcome = Signaled | TimedOut | Failed

definition ETIMEDOUT :: int where
  "ETIMEDOUT = 110"

definition EINVAL :: int where
  "EINVAL = 22"

definition outcome_of_DWORD :: "unsigned_int \<Rightarrow> wait_outcome" where
  "outcome_of_DWORD d =
     (if d = WAIT_OBJECT_0 then Signaled else if d = WAIT_TIMEOUT then TimedOut else Failed)"

definition outcome_of_rc :: "int \<Rightarrow> int \<Rightarrow> wait_outcome" where
  "outcome_of_rc rc errno =
     (if rc = 0 then Signaled else if errno = ETIMEDOUT then TimedOut else Failed)"

definition os_wait_outcome :: "platform \<Rightarrow> os_reply \<Rightarrow> unsigned_int \<Rightarrow> wait_outcome option" where
  "os_wait_outcome plat os timeout_ms =
     (case plat of
        Windows \<Rightarrow> map_option outcome_of_DWORD (r_WaitForSingleObject os timeout_ms)
      | Posix \<Rightarrow>
          (if timeout_ms = INFINITE
           then map_option (\<lambda>rc. outcome_of_rc rc (r_errno os)) (r_sem_wait os)
           else Some (outcome_of_rc (r_sem_timedwait os) (r_errno os))))"

subsection \<open>The steps of the combined teardown, in the words of the specification\<close>

datatype destroy_step = Unmap ptr | CloseBacking ptr | RemoveName string

fun step_of :: "os_call \<Rightarrow> destroy_step option" where
  "step_of (UnmapViewOfFile p) = Some (Unmap p)"
| "step_of (munmap p n) = Some (Unmap p)"
| "step_of (CloseHandle h) = Some (CloseBacking h)"
| "step_of (close fd) = Some (CloseBacking fd)"
| "step_of (shm_unlink n) = Some (RemoveName n)"
| "step_of _ = None"

text \<open>
  The specification's order: unmap the mapping if there is one, then release the backing
  object, then remove the name if one was given.
\<close>

definition destroy_spec :: "ptr \<Rightarrow> cstring \<Rightarrow> ptr \<Rightarrow> destroy_step list" where
  "destroy_spec shm name mapped =
     (if mapped \<noteq> nullptr then [Unmap mapped] else []) @ [CloseBacking shm] @
     (case name of None \<Rightarrow> [] | Some n \<Rightarrow> [RemoveName n])"

subsection \<open>The two signaling primitives\<close>

text \<open>
  The state of the object behind an event handle, and the contract of the primitives the
  code calls on it, for one process with no other thread waiting or signaling. A POSIX
  named semaphore is a counter: \<^verbatim>\<open>sem_post\<close> adds one (and fails at
  \<^verbatim>\<open>SEM_VALUE_MAX\<close>), a wait takes one when the counter is positive, a timed wait on
  zero runs into its deadline and \<^verbatim>\<open>sem_wait\<close> on zero does not return. A Windows
  event created with \<^verbatim>\<open>bManualReset = FALSE\<close> is one bit: \<^verbatim>\<open>SetEvent\<close> sets it, a wait
  that finds it set clears it.
\<close>

datatype event_obj = Semaphore nat | AutoResetEvent bool

definition SEM_VALUE_MAX :: nat where
  "SEM_VALUE_MAX = 2147483647"

fun signaled :: "event_obj \<Rightarrow> bool" where
  "signaled (Semaphore n) = (0 < n)"
| "signaled (AutoResetEvent b) = b"

fun answers :: "event_obj \<Rightarrow> os_reply \<Rightarrow> os_reply" where
  "answers (Semaphore n) os =
     os\<lparr>r_sem_post := (if n < SEM_VALUE_MAX then 0 else - 1),
        r_sem_wait := (if 0 < n then Some 0 else None),
        r_sem_timedwait := (if 0 < n then 0 else - 1),
        r_errno := (if 0 < n then r_errno os else ETIMEDOUT)\<rparr>"
| "answers (AutoResetEvent b) os =
     os\<lparr>r_SetEvent := 1,
        r_WaitForSingleObject :=
          (\<lambda>t. if b then Some WAIT_OBJECT_0
               else if t = INFINITE then None else Some WAIT_TIMEOUT)\<rparr>"

fun effect :: "os_call \<Rightarrow> event_obj \<Rightarrow> event_obj" where
  "effect (sem_post h) (Semaphore n) = Semaphore (if n < SEM_VALUE_MAX then Suc n else n)"
| "effect (sem_wait h) (Semaphore n) = Semaphore (n - 1)"
| "effect (sem_timedwait h ts) (Semaphore n) = Semaphore (n - 1)"
| "effect (SetEvent h) (AutoResetEvent b) = AutoResetEvent True"
| "effect (WaitForSingleObject h t) (AutoResetEvent b) = AutoResetEvent False"
| "effect c obj = obj"

text \<open>
  Running a function of the header against the object: the object answers the calls, and
  the calls the function issued act on it in order.
\<close>

definition run_on :: "event_obj \<Rightarrow> os_reply \<Rightarrow> (os_reply \<Rightarrow> 'a \<times> os_call list) \<Rightarrow> 'a \<times> event_obj" where
  "run_on obj os f = (let (x, calls) = f (answers obj os) in (x, fold effect calls obj))"

definition signal_on :: "platform \<Rightarrow> event_obj \<Rightarrow> os_reply \<Rightarrow> ptr \<Rightarrow> bool \<times> event_obj" where
  "signal_on plat obj os event = run_on obj os (\<lambda>os'. set_event plat os' event)"

definition wait_on ::
  "platform \<Rightarrow> event_obj \<Rightarrow> os_reply \<Rightarrow> ptr \<Rightarrow> unsigned_int \<Rightarrow> bool option \<times> event_obj" where
  "wait_on plat obj os event timeout_ms =
     run_on obj os (\<lambda>os'. wait_for_event plat os' event timeout_ms)"

section \<open>Events: creation, signal and wait\<close>

text \<open>
  C5, as the claim states it, fails: the empty string is not the null pointer. With it
  \<open>create_event\<close> calls \<^verbatim>\<open>sem_open\<close>, and when that call refuses the name it calls
  \<^verbatim>\<open>perror\<close> and returns the null handle: two calls were made.
\<close>

theorem empty_name_reaches_os:
  "create_event Posix (os_ok\<lparr>r_sem_open := SEM_FAILED\<rparr>) (Some '''') False =
     (nullptr, [sem_open '''' 0, perror ''sem_open'']) \<and>
   snd (create_event Posix (os_ok\<lparr>r_sem_open := SEM_FAILED\<rparr>) (Some '''') False) \<noteq> []"
  by (simp add: create_event_def)

text \<open>
  C5, amended. For the null name \<open>create_event\<close> returns the null handle and issues no
  call. For every non-null name, the empty string included, it issues the creating call
  of the build with that name and returns what the system answered: the answer of
  \<^verbatim>\<open>CreateEventA\<close> on Windows; on POSIX the answer of \<^verbatim>\<open>sem_open\<close>, or, when that
  is \<^verbatim>\<open>SEM_FAILED\<close>, the null handle after a call of \<^verbatim>\<open>perror\<close>.
\<close>

theorem create_event_null_name_only:
  "create_event plat os None initial_state = (nullptr, []) \<and>
   create_event Windows os (Some n) initial_state =
     (r_CreateEventA os, [CreateEventA False initial_state n]) \<and>
   create_event Posix os (Some n) initial_state =
     (if r_sem_open os = SEM_FAILED
      then (nullptr, [sem_open n (if initial_state then 1 else 0), perror ''sem_open''])
      else (r_sem_open os, [sem_open n (if initial_state then 1 else 0)]))"
  by (simp add: create_event_def Let_def)

text \<open>
  C3. The claim fails in the POSIX build. A semaphore of value 1 is a signaled event
  with no waiter; \<open>set_event\<close> on it succeeds and leaves the value 2, and two waits in a
  row then both succeed.
\<close>

theorem posix_signal_accumulates:
  "signal_on Posix (Semaphore 1) os_ok 4096 = (True, Semaphore 2) \<and>
   wait_on Posix (Semaphore 2) os_ok 4096 100 = (Some True, Semaphore 1) \<and>
   wait_on Posix (Semaphore 1) os_ok 4096 100 = (Some True, Semaphore 0)"
  by (simp add: signal_on_def wait_on_def run_on_def set_event_def wait_for_event_def
      nullptr_def SEM_VALUE_MAX_def INFINITE_def)

text \<open>
  The two builds side by side. On Windows a signal on a signaled event changes nothing,
  and the second of two waits runs into its timeout; on POSIX every signal below
  \<^verbatim>\<open>SEM_VALUE_MAX\<close> adds one to the counter.
\<close>

lemma windows_signal_binary:
  "event \<noteq> nullptr \<Longrightarrow>
   signal_on Windows (AutoResetEvent True) os event = (True, AutoResetEvent True)"
  by (simp add: signal_on_def run_on_def set_event_def)

lemma windows_second_wait_times_out:
  "wait_on Windows (AutoResetEvent True) os_ok 64 100 = (Some True, AutoResetEvent False) \<and>
   wait_on Windows (AutoResetEvent False) os_ok 64 100 = (Some False, AutoResetEvent False)"
  by (simp add: wait_on_def run_on_def wait_for_event_def nullptr_def INFINITE_def
      WAIT_OBJECT_0_def WAIT_TIMEOUT_def)

lemma posix_signal_counts:
  "event \<noteq> nullptr \<Longrightarrow> n < SEM_VALUE_MAX \<Longrightarrow>
   signal_on Posix (Semaphore n) os event = (True, Semaphore (Suc n))"
  by (simp add: signal_on_def run_on_def set_event_def)

text \<open>
  C4, as the claim states it, fails: a timed wait that ran into its deadline and a timed
  wait that failed with \<^verbatim>\<open>EINVAL\<close> are different outcomes for the system and the same
  result of \<open>wait_for_event\<close>.
\<close>

theorem wait_timeout_and_failure_coincide:
  "os_wait_outcome Posix (os_ok\<lparr>r_sem_timedwait := - 1, r_errno := ETIMEDOUT\<rparr>) 100 =
     Some TimedOut \<and>
   os_wait_outcome Posix (os_ok\<lparr>r_sem_timedwait := - 1, r_errno := EINVAL\<rparr>) 100 =
     Some Failed \<and>
   fst (wait_for_event Posix (os_ok\<lparr>r_sem_timedwait := - 1, r_errno := ETIMEDOUT\<rparr>) 4096 100) =
   fst (wait_for_event Posix (os_ok\<lparr>r_sem_timedwait := - 1, r_errno := EINVAL\<rparr>) 4096 100)"
  by (simp add: os_wait_outcome_def outcome_of_rc_def wait_for_event_def INFINITE_def
      nullptr_def ETIMEDOUT_def EINVAL_def)

text \<open>
  C4, amended. For a non-null event handle the result of \<open>wait_for_event\<close> has two
  values: it is true exactly when the wait of the system ended signaled, and false for a
  timeout and for a failure alike. (When the wait of the system does not return, neither
  does \<open>wait_for_event\<close>.)
\<close>

theorem wait_result_two_valued:
  "event \<noteq> nullptr \<Longrightarrow>
   fst (wait_for_event plat os event timeout_ms) =
     map_option (\<lambda>outcome. outcome = Signaled) (os_wait_outcome plat os timeout_ms)"
  by (cases plat)
    (auto simp add: wait_for_event_def os_wait_outcome_def outcome_of_DWORD_def
      outcome_of_rc_def option.map_comp comp_def intro!: option.map_cong)

theorem wait_result_two_valued_witness:
  "(64::int) \<noteq> nullptr \<and>
   os_wait_outcome Windows (os_ok\<lparr>r_WaitForSingleObject := (\<lambda>_. Some WAIT_FAILED)\<rparr>) 100 =
     Some Failed \<and>
   fst (wait_for_event Windows (os_ok\<lparr>r_WaitForSingleObject := (\<lambda>_. Some WAIT_FAILED)\<rparr>) 64 100) =
     Some False"
  using wait_result_two_valued
    [of 64 Windows "os_ok\<lparr>r_WaitForSingleObject := (\<lambda>_. Some WAIT_FAILED)\<rparr>" 100]
  by (simp add: nullptr_def os_wait_outcome_def outcome_of_DWORD_def WAIT_FAILED_def
      WAIT_OBJECT_0_def WAIT_TIMEOUT_def)

subsection \<open>The deadline of the timed wait\<close>










section \<open>Shared memory: acquisition and release\<close>

text \<open>
  C6. A null name or a zero size makes \<open>create_shared_memory\<close> return the null handle,
  and a null backing handle or a zero size makes \<open>map_shared_memory\<close> return the null
  mapping, in both builds and whatever the operating system would have answered, with no
  call issued.
\<close>

theorem invalid_arguments_rejected_before_os:
  "(name = None \<or> sz = 0 \<longrightarrow> create_shared_memory plat os name sz = (nullptr, [])) \<and>
   (shm = nullptr \<or> sz' = 0 \<longrightarrow> map_shared_memory plat os shm sz' = (nullptr, []))"
  by (auto simp add: create_shared_memory_def map_shared_memory_def split: option.splits)

theorem invalid_arguments_rejected_before_os_witness:
  "create_shared_memory Posix os_ok (Some ''shm1'') 0 = (nullptr, []) \<and>
   map_shared_memory Posix os_ok nullptr 4096 = (nullptr, [])"
  using invalid_arguments_rejected_before_os [of "Some ''shm1''" 0 Posix os_ok nullptr 4096]
  by simp

text \<open>
  C2. In the POSIX build, the only one with a sizing step of its own, when \<^verbatim>\<open>shm_open\<close>
  gave a descriptor and \<^verbatim>\<open>ftruncate\<close> then fails, \<open>create_shared_memory\<close> closes that
  descriptor, unlinks the name, and returns the null handle; these are its last two calls.
\<close>

theorem sizing_failure_unwinds:
  "sz \<noteq> 0 \<Longrightarrow> r_shm_open os \<noteq> - 1 \<Longrightarrow> r_ftruncate os = - 1 \<Longrightarrow>
   create_shared_memory Posix os (Some n) sz =
     (nullptr,
      [shm_open n, ftruncate (r_shm_open os) sz, perror ''ftruncate'',
       close (r_shm_open os), shm_unlink n])"
  by (simp add: create_shared_memory_def Let_def)

theorem sizing_failure_unwinds_witness:
  "(4096::nat) \<noteq> 0 \<and> r_shm_open (os_ok\<lparr>r_ftruncate := - 1\<rparr>) \<noteq> - 1 \<and>
   r_ftruncate (os_ok\<lparr>r_ftruncate := - 1\<rparr>) = - 1 \<and>
   create_shared_memory Posix (os_ok\<lparr>r_ftruncate := - 1\<rparr>) (Some ''shm1'') 4096 =
     (nullptr,
      [shm_open ''shm1'', ftruncate 3 4096, perror ''ftruncate'', close 3, shm_unlink ''shm1''])"
  using sizing_failure_unwinds [of 4096 "os_ok\<lparr>r_ftruncate := - 1\<rparr>" "''shm1''"]
  by (simp add: os_ok_def)

text \<open>
  C1, as the claim states it, fails: when \<^verbatim>\<open>mmap\<close> answers \<^verbatim>\<open>MAP_FAILED\<close> for the open
  descriptor 3, \<open>map_shared_memory\<close> itself closes descriptor 3.
\<close>

theorem map_failure_closes_backing:
  "close 3 \<in> set (snd (map_shared_memory Posix (os_ok\<lparr>r_mmap := MAP_FAILED\<rparr>) 3 4096))"
  by (simp add: map_shared_memory_def os_ok_def nullptr_def)

text \<open>
  C1, amended. For a non-null backing handle and a non-zero size, when the mapping call
  fails, \<open>map_shared_memory\<close> returns the null mapping and its last call releases the
  backing handle that was passed in (\<^verbatim>\<open>CloseHandle\<close> on Windows, \<^verbatim>\<open>close\<close> on POSIX):
  the caller is left without an open handle.
\<close>

theorem map_failure_releases_backing:
  "shm \<noteq> nullptr \<Longrightarrow> sz \<noteq> 0 \<Longrightarrow> map_failed plat os \<Longrightarrow>
   fst (map_shared_memory plat os shm sz) = nullptr \<and>
   last (snd (map_shared_memory plat os shm sz)) = close_call plat shm"
  by (cases plat) (simp_all add: map_shared_memory_def map_failed_def close_call_def Let_def)

theorem map_failure_releases_backing_witness:
  "(68::int) \<noteq> nullptr \<and> (4096::nat) \<noteq> 0 \<and>
   map_failed Windows (os_ok\<lparr>r_MapViewOfFile := nullptr\<rparr>) \<and>
   fst (map_shared_memory Windows (os_ok\<lparr>r_MapViewOfFile := nullptr\<rparr>) 68 4096) = nullptr \<and>
   last (snd (map_shared_memory Windows (os_ok\<lparr>r_MapViewOfFile := nullptr\<rparr>) 68 4096)) =
     CloseHandle 68"
  using map_failure_releases_backing [of 68 4096 Windows "os_ok\<lparr>r_MapViewOfFile := nullptr\<rparr>"]
  by (simp add: nullptr_def map_failed_def close_call_def)

text \<open>
  C7, as the claim states it, fails in the Windows build: with a name given and no
  mapping, \<open>close_shared_memory\<close> only closes the handle, where the specification's order
  ends with the removal of the name.
\<close>

theorem windows_destroy_keeps_name:
  "List.map_filter step_of (close_shared_memory Windows 68 (Some ''shm1'') nullptr 0) =
     [CloseBacking 68] \<and>
   List.map_filter step_of (close_shared_memory Windows 68 (Some ''shm1'') nullptr 0) \<noteq>
     destroy_spec 68 (Some ''shm1'') nullptr"
  by (simp add: close_shared_memory_def destroy_spec_def nullptr_def)

text \<open>
  C7, amended. For a non-null backing handle \<open>close_shared_memory\<close> first unmaps the
  mapping if one was passed, then releases the backing handle. The POSIX build then
  removes the name if and only if one was given; the Windows build never removes a name,
  its \<open>name\<close> argument is unused. In both builds the unmapping precedes the release.
\<close>

theorem destroy_order:
  "shm \<noteq> nullptr \<Longrightarrow>
   List.map_filter step_of (close_shared_memory plat shm name mapped sz) =
     destroy_spec shm (case plat of Windows \<Rightarrow> None | Posix \<Rightarrow> name) mapped"
  by (cases plat) (simp_all add: close_shared_memory_def destroy_spec_def split: option.splits)

theorem destroy_order_witness:
  "(3::int) \<noteq> nullptr \<and>
   List.map_filter step_of (close_shared_memory Posix 3 (Some ''shm1'') 8192 4096) =
     [Unmap 8192, CloseBacking 3, RemoveName ''shm1'']"
  using destroy_order [of 3 Posix "Some ''shm1''" 8192 4096]
  by (simp add: nullptr_def destroy_spec_def)

text \<open>
  C8. With a null handle, \<open>close_event\<close> and \<open>close_shared_memory\<close> issue no call at
  all, whatever the name, the mapping and the size, in both builds.
\<close>

theorem destroy_null_is_noop:
  "close_event plat nullptr name = [] \<and>
   close_shared_memory plat nullptr name mapped sz = []"
  by (simp add: close_event_def close_shared_memory_def)

text \<open>
  C10. With a null backing handle \<open>close_shared_memory\<close> does not unlink the name it was
  given; and whenever it does unlink a name, the backing handle was not null and that
  name is the one passed in.
\<close>

theorem null_backing_never_unlinks:
  "shm_unlink n \<notin> set (close_shared_memory plat nullptr (Some n) mapped sz) \<and>
   (shm_unlink m \<in> set (close_shared_memory plat shm name mapped sz) \<longrightarrow>
      shm \<noteq> nullptr \<and> name = Some m)"
  by (cases plat) (auto simp add: close_shared_memory_def split: option.splits if_splits)

theorem null_backing_never_unlinks_witness:
  "shm_unlink ''shm1'' \<notin> set (close_shared_memory Posix nullptr (Some ''shm1'') 8192 4096) \<and>
   shm_unlink ''shm1'' \<in> set (close_shared_memory Posix 3 (Some ''shm1'') 8192 4096) \<and>
   (3::int) \<noteq> nullptr"
  using null_backing_never_unlinks [of "''shm1''" Posix 8192 4096 "''shm1''" 3 "Some ''shm1''"]
  by (simp add: close_shared_memory_def nullptr_def)

end
